theory Spec2Isabelle
  imports Main "HOL-Library.Sublist" "HOL-Library.AList"
begin

section \<open>JavaScript values and strings\<close>

text \<open>
  A JavaScript string is modelled as a \<^typ>\<open>string\<close> holding its UTF-8 bytes: equality,
  emptiness, concatenation and substring search agree with the code's on well-formed text.
  An exit code is a number or a string (\<^verbatim>\<open>number | string\<close>), \<^verbatim>\<open>null\<close> and
  \<^verbatim>\<open>undefined\<close> are \<^const>\<open>None\<close>.
\<close>

datatype js_code = Num int | Str string

text \<open>\<^verbatim>\<open>String.prototype.includes\<close>: the argument occurs somewhere in the string.\<close>

fun js_includes :: "string \<Rightarrow> string \<Rightarrow> bool" where
  "js_includes [] sub = (sub = [])"
| "js_includes (c # cs) sub = (prefix sub (c # cs) \<or> js_includes cs sub)"

text \<open>
  A number used as a property key is converted to its decimal text, so that
  \<^verbatim>\<open>status[1]\<close> and \<^verbatim>\<open>status['1']\<close> name the same property.
\<close>

definition digit_char :: "nat \<Rightarrow> char" where
  "digit_char d = ''0123456789'' ! d"

fun string_of_nat :: "nat \<Rightarrow> string" where
  "string_of_nat n =
     (if n < 10 then [digit_char n] else string_of_nat (n div 10) @ [digit_char (n mod 10)])"

declare string_of_nat.simps [simp del]

definition string_of_int :: "int \<Rightarrow> string" where
  "string_of_int i =
     (if i < 0 then CHR ''-'' # string_of_nat (nat (- i)) else string_of_nat (nat i))"

fun property_key :: "js_code \<Rightarrow> string" where
  "property_key (Num n) = string_of_int n"
| "property_key (Str s) = s"

text \<open>
  \<^verbatim>\<open>Number(key)\<close> on the keys of the message table, which are signed decimal integers;
  \<^const>\<open>None\<close> is \<^verbatim>\<open>NaN\<close>. Only this fragment of the conversion is modelled.
\<close>

definition digit_value :: "char \<Rightarrow> nat option" where
  "digit_value c = map_of (zip ''0123456789'' [0, 1, 2, 3, 4, 5, 6, 7, 8, 9]) c"

fun parse_digits :: "nat \<Rightarrow> string \<Rightarrow> nat option" where
  "parse_digits acc [] = Some acc"
| "parse_digits acc (c # cs) =
     (case digit_value c of None \<Rightarrow> None | Some d \<Rightarrow> parse_digits (10 * acc + d) cs)"

definition js_Number :: "string \<Rightarrow> int option" where
  "js_Number s =
     (if s = [] then Some 0
      else if hd s = CHR ''-'' then
        (if tl s = [] then None else map_option (\<lambda>n. - int n) (parse_digits 0 (tl s)))
      else map_option int (parse_digits 0 s))"

text \<open>A template literal prints an undefined value as the text \<^verbatim>\<open>undefined\<close>.\<close>

fun template_str :: "string option \<Rightarrow> string" where
  "template_str None = ''undefined''"
| "template_str (Some s) = s"

datatype log_entry = LogInfo string | LogError string

section \<open>errors.ts: exit codes and their messages\<close>

datatype tool_type = Fixer | Sniffer

datatype tool = Phpcs | Phpcbf

text \<open>
  The message table \<^verbatim>\<open>errorMsgs\<close> is a module-level object that \<^verbatim>\<open>getErrorMsg\<close>
  assigns to, so it is a piece of state: an association list from property keys to
  messages, in the order \<^verbatim>\<open>Object.keys\<close> enumerates it (integer keys ascending, then
  \<^verbatim>\<open>'-1'\<close>). The constant below is its value when the module is loaded.
\<close>

type_synonym error_msgs = "(string \<times> string) list"

definition errorMsgs :: error_msgs where
  "errorMsgs =
     [(''0'', ''No errors were found''),
      (''1'', ''Auto-fixable errors were found''),
      (''2'', ''Non-auto-fixable errors were found''),
      (''3'', ''Auto-fixable and non-auto-fixable errors were found''),
      (''4'', ''Failed to fix some files or conflict between sniffs''),
      (''5'', ''Failed to fix some auto-fixable errors''),
      (''7'', ''Failed to fix some auto-fixable errors with a mixture of non-auto-fixable''),
      (''16'', ''Processing error''),
      (''-1'', '''')]"

text \<open>
  \<^verbatim>\<open>map4xStatusFromErrors\<close>: every key of the table, mapped to itself, as a number
  unless \<^verbatim>\<open>Number(key)\<close> is \<^verbatim>\<open>NaN\<close>.
\<close>

definition numKey :: "string \<Rightarrow> js_code" where
  "numKey key = (case js_Number key of None \<Rightarrow> Str key | Some n \<Rightarrow> Num n)"

definition map4xStatusFromErrors :: "error_msgs \<Rightarrow> (string \<times> js_code) list" where
  "map4xStatusFromErrors msgs =
     map (\<lambda>key. (property_key (numKey key), numKey key)) (map fst msgs)"

text \<open>
  \<^verbatim>\<open>getMappedExitCode(code, type)\<close>. The awaited result of \<^verbatim>\<open>snifferVersion()\<close> is
  the argument \<open>snifferVersionString\<close> (\<^const>\<open>None\<close> when it is undefined). The result is
  the value the promise resolves to, with the lines written to the logger.
\<close>

definition status3x :: "tool_type \<Rightarrow> (string \<times> js_code) list" where
  "status3x type =
     (let status = [(''-1'', Str ''-1''), (''0'', Num 0), (''1'', Num 2), (''2'', Num 1),
                    (''3'', Num 16)]
      in if type = Fixer
         then AList.update ''2'' (Num 5) (AList.update ''1'' (Num 0) status)
         else status)"

definition getMappedExitCode ::
  "error_msgs \<Rightarrow> string option \<Rightarrow> js_code option \<Rightarrow> tool_type \<Rightarrow> js_code \<times> log_entry list"
where
  "getMappedExitCode msgs snifferVersionString code0 type =
     (let code = (case code0 of None \<Rightarrow> Str ''-1'' | Some c \<Rightarrow> c) in
      case snifferVersionString of
        None \<Rightarrow> (code, [LogError ''Unable to determine sniffer version''])
      | Some v \<Rightarrow>
          (let status =
             (if prefix ''4.'' v then map4xStatusFromErrors msgs
              else if prefix ''3.'' v then status3x type
              else [])
           in (case map_of status (property_key code) of
                 Some mapped \<Rightarrow> mapped
               | None \<Rightarrow> code, [])))"

text \<open>
  \<^verbatim>\<open>getErrorMsg(status, type)\<close> returns the message (\<^const>\<open>None\<close> for a status that is
  not a key of the table) and the table it leaves behind.
\<close>

definition getErrorMsg ::
  "error_msgs \<Rightarrow> js_code \<Rightarrow> tool_type \<Rightarrow> string option \<times> error_msgs"
where
  "getErrorMsg msgs status type =
     (let msgs' = (if type = Fixer
                   then AList.update ''0'' ''No errors were found or all errors were fixed'' msgs
                   else msgs)
      in (map_of msgs' (property_key status), msgs'))"

text \<open>A sequence of calls of \<^verbatim>\<open>getErrorMsg\<close>, threading the table.\<close>

fun getErrorMsg_calls :: "error_msgs \<Rightarrow> (js_code \<times> tool_type) list \<Rightarrow> error_msgs" where
  "getErrorMsg_calls msgs [] = msgs"
| "getErrorMsg_calls msgs ((status, type) # calls) =
     getErrorMsg_calls (snd (getErrorMsg msgs status type)) calls"

text \<open>
  The file system as \<^verbatim>\<open>isStandardDisabled\<close> sees it: a path is absent
  (\<^verbatim>\<open>existsSync\<close> is false), holds text that \<^verbatim>\<open>readFileSync\<close> returns, or exists
  and cannot be read (\<^verbatim>\<open>readFileSync\<close> throws).
\<close>

datatype fs_node = Absent | Readable string | Unreadable

type_synonym file_system = "string \<Rightarrow> fs_node"

definition hasNoSniffsError :: "string \<Rightarrow> string \<Rightarrow> bool" where
  "hasNoSniffsError stdout stderr =
     (js_includes stdout ''No sniffs were registered'' \<or>
      js_includes stderr ''No sniffs were registered'')"

text \<open>
  The attribute values that switch the queried tool off, such as
  \<^verbatim>\<open>phpcs-only="false"\<close>; \<open>dq s\<close> is the text \<open>s\<close> between double quotes.
\<close>

definition dq :: "string \<Rightarrow> string" where
  "dq s = [CHR 0x22] @ s @ [CHR 0x22]"

fun attributes :: "tool \<Rightarrow> string list" where
  "attributes Phpcs = [''phpcs-only='' @ dq ''false'', ''phpcbf-only='' @ dq ''true'']"
| "attributes Phpcbf = [''phpcs-only='' @ dq ''true'', ''phpcbf-only='' @ dq ''false'']"

text \<open>
  \<^verbatim>\<open>isStandardDisabled(standard, type, stdout, stderr)\<close>, with the lines it writes to
  the logger; \<open>isStandardDisabled\<close> is the value it returns.
\<close>

definition isStandardDisabled_logged ::
  "file_system \<Rightarrow> string \<Rightarrow> tool \<Rightarrow> string \<Rightarrow> string \<Rightarrow> bool \<times> log_entry list"
where
  "isStandardDisabled_logged fs standard type stdout stderr =
     (if standard = [] then (False, [])
      else case fs standard of
        Absent \<Rightarrow> (False, [])
      | Unreadable \<Rightarrow> (False, [LogError (''Could not read standard file: '' @ standard)])
      | Readable standardContent \<Rightarrow>
          (let isDisabled = list_ex (\<lambda>attr. js_includes standardContent attr) (attributes type)
           in (isDisabled \<and> hasNoSniffsError stdout stderr, [])))"

definition isStandardDisabled ::
  "file_system \<Rightarrow> string \<Rightarrow> tool \<Rightarrow> string \<Rightarrow> string \<Rightarrow> bool"
where
  "isStandardDisabled fs standard type stdout stderr =
     fst (isStandardDisabled_logged fs standard type stdout stderr)"

text \<open>
  \<^verbatim>\<open>String.prototype.replace\<close> with a string pattern replaces the first occurrence;
  the code's replacement is the empty string, which has no \<^verbatim>\<open>$\<close> pattern in it.
\<close>

fun js_replace :: "string \<Rightarrow> string \<Rightarrow> string \<Rightarrow> string" where
  "js_replace [] pat rep = (if pat = [] then rep else [])"
| "js_replace (c # cs) pat rep =
     (if prefix pat (c # cs) then rep @ drop (length pat) (c # cs)
      else c # js_replace cs pat rep)"

text \<open>
  \<^verbatim>\<open>String.prototype.trim\<close> removes white space and line terminators from both ends.
  The list holds the UTF-8 bytes of each such code point: U+0009..U+000D, U+0020, U+00A0,
  U+1680, U+2000..U+200A, U+2028, U+2029, U+202F, U+205F, U+3000 and U+FEFF.
\<close>

definition js_whitespace :: "string list" where
  "js_whitespace =
     [[CHR 0x09], [CHR 0x0A], [CHR 0x0B], [CHR 0x0C], [CHR 0x0D], [CHR 0x20],
      [CHR 0xC2, CHR 0xA0],
      [CHR 0xE1, CHR 0x9A, CHR 0x80],
      [CHR 0xE2, CHR 0x80, CHR 0x80], [CHR 0xE2, CHR 0x80, CHR 0x81],
      [CHR 0xE2, CHR 0x80, CHR 0x82], [CHR 0xE2, CHR 0x80, CHR 0x83],
      [CHR 0xE2, CHR 0x80, CHR 0x84], [CHR 0xE2, CHR 0x80, CHR 0x85],
      [CHR 0xE2, CHR 0x80, CHR 0x86], [CHR 0xE2, CHR 0x80, CHR 0x87],
      [CHR 0xE2, CHR 0x80, CHR 0x88], [CHR 0xE2, CHR 0x80, CHR 0x89],
      [CHR 0xE2, CHR 0x80, CHR 0x8A],
      [CHR 0xE2, CHR 0x80, CHR 0xA8], [CHR 0xE2, CHR 0x80, CHR 0xA9],
      [CHR 0xE2, CHR 0x80, CHR 0xAF],
      [CHR 0xE2, CHR 0x81, CHR 0x9F],
      [CHR 0xE3, CHR 0x80, CHR 0x80],
      [CHR 0xEF, CHR 0xBB, CHR 0xBF]]"

text \<open>Removing every leading occurrence of one of the sequences \<open>ws\<close>.\<close>

function strip_leading :: "string list \<Rightarrow> string \<Rightarrow> string" where
  "strip_leading ws s =
     (case find (\<lambda>w. w \<noteq> [] \<and> prefix w s) ws of
        None \<Rightarrow> s
      | Some w \<Rightarrow> strip_leading ws (drop (length w) s))"
  by pat_completeness auto
termination
proof (relation "measure (\<lambda>(ws, s). length s)")
  show "wf (measure (\<lambda>(ws, s). length s))" by simp
next
  fix ws :: "string list" and s w :: string
  assume "find (\<lambda>w. w \<noteq> [] \<and> prefix w s) ws = Some w"
  then have "w \<noteq> []" and "prefix w s"
    by (auto simp: find_Some_iff)
  then have "length w \<le> length s" and "length w \<noteq> 0"
    by (simp_all add: prefix_length_le)
  then have "length s - length w < length s"
    by arith
  then show "((ws, drop (length w) s), (ws, s)) \<in> measure (\<lambda>(ws, s). length s)"
    by simp
qed

declare strip_leading.simps [simp del]

definition trimStart :: "string \<Rightarrow> string" where
  "trimStart s = strip_leading js_whitespace s"

definition trimEnd :: "string \<Rightarrow> string" where
  "trimEnd s = rev (strip_leading (map rev js_whitespace) (rev s))"

definition trim :: "string \<Rightarrow> string" where
  "trim s = trimEnd (trimStart s)"

text \<open>\<^verbatim>\<open>getStandardDisabledErrorMsg(standard, type, stdout, stderr)\<close>.\<close>

fun tool_name :: "tool \<Rightarrow> string" where
  "tool_name Phpcs = ''phpcs''"
| "tool_name Phpcbf = ''phpcbf''"

fun toUpperCase_tool :: "tool \<Rightarrow> string" where
  "toUpperCase_tool Phpcs = ''PHPCS''"
| "toUpperCase_tool Phpcbf = ''PHPCBF''"

definition getStandardDisabledErrorMsg ::
  "string \<Rightarrow> tool \<Rightarrow> string \<Rightarrow> string \<Rightarrow> string"
where
  "getStandardDisabledErrorMsg standard type stdout stderr =
     (let output = (if stdout \<noteq> [] then stdout else stderr);
          typeUpperCase = toUpperCase_tool type;
          otherToolUpperCase = (if type = Phpcs then ''PHPCBF'' else ''PHPCS'');
          error = typeUpperCase @ '' is disabled for the coding standard ('' @ dq standard @
            ''), and is configured to be '' @ otherToolUpperCase @
            ''-only. It either has the attribute 'phpcs-only' or 'phpcbf-only' set to 'true' or 'false'.''
            @ [CHR 0x0A];
          error = error @ [CHR 0x0A] @ typeUpperCase @ '' '';
          error = error @ js_replace output
            ([CHR 0x0A] @ ''Run '' @ dq (tool_name type @ '' --help'') @ '' for usage information'') []
      in trim error)"

section \<open>sniffer.ts: validation runs\<close>

text \<open>
  The report the validator prints, as the interface \<^verbatim>\<open>PHPCSReport\<close> types it (the
  interface file is not among the sources; the fields are those the code reads). The
  files are listed in the order \<^verbatim>\<open>for (const file in files)\<close> visits them.
\<close>

datatype PHPCSMessageType = ERROR | WARNING

record phpcs_message =
  m_message :: string
  m_line :: int
  m_column :: int
  m_type :: PHPCSMessageType
  m_source :: string
  m_fixable :: bool

type_synonym phpcs_files = "(string \<times> phpcs_message list) list"

text \<open>The host's \<^verbatim>\<open>Range\<close>, \<^verbatim>\<open>DiagnosticSeverity\<close> and \<^verbatim>\<open>Diagnostic\<close>, as data.\<close>

record range =
  start_line :: int
  start_character :: int
  end_line :: int
  end_character :: int

datatype DiagnosticSeverity = Error | Warning

record diagnostic =
  d_range :: range
  d_message :: string
  d_severity :: DiagnosticSeverity
  d_source :: string

text \<open>
  The body of the \<^verbatim>\<open>forEach\<close> callback: one diagnostic from one message of the
  report. The two markers are the UTF-8 bytes of U+2714 U+FE0F and of U+274C.
\<close>

definition diagnostic_of :: "bool \<Rightarrow> phpcs_message \<Rightarrow> diagnostic" where
  "diagnostic_of snifferShowSources m =
     (let zeroLine = m_line m - 1;
          ZeroColumn = m_column m - 1;
          range = \<lparr>start_line = zeroLine, start_character = ZeroColumn,
                   end_line = zeroLine, end_character = ZeroColumn\<rparr>;
          severity = (if m_type m = ERROR then Error else Warning);
          output = m_message m;
          output = (if snifferShowSources
                    then output @ [CHR 0x0A] @ ''('' @ m_source m @ '')'' else output);
          output = output @ [CHR 0x0A] @ ''Auto-fixable: '' @
                   (if m_fixable m
                    then [CHR 0xE2, CHR 0x9C, CHR 0x94, CHR 0xEF, CHR 0xB8, CHR 0x8F]
                    else [CHR 0xE2, CHR 0x9D, CHR 0x8C])
      in \<lparr>d_range = range, d_message = output, d_severity = severity, d_source = ''phpcs''\<rparr>)"

text \<open>
  A value caught by \<^verbatim>\<open>catch (error)\<close>: whether it is an \<^verbatim>\<open>Error\<close> object, and its
  \<^verbatim>\<open>toString()\<close>.
\<close>

record thrown =
  is_Error :: bool
  to_string :: string

text \<open>
  \<^verbatim>\<open>JSON.parse\<close> belongs to the host; the model takes it as a function from the output
  text to the value thrown (by the parser, or by taking \<^verbatim>\<open>files\<close> out of its result) or
  to the files of the decoded value, in the order \<^verbatim>\<open>for (const file in files)\<close> visits
  them. The decoded value need not have the declared type, and the statements of the
  \<^verbatim>\<open>try\<close> block can throw on it. An entry of \<^verbatim>\<open>files\<close> is the value that
  \<^verbatim>\<open>files[file].messages.forEach\<close> throws (a \<^verbatim>\<open>TypeError\<close> when the entry has no list
  of messages) or the list of its elements; an element is the value the callback throws
  on it (an element that is \<^verbatim>\<open>null\<close> cannot be taken apart, and the host's
  \<^verbatim>\<open>Range\<close> may refuse a position) or a message as the interface types it, for which
  the callback pushes a diagnostic. The host's constructors themselves are data here:
  which positions they refuse is not part of the model.
\<close>

type_synonym json_message = "thrown + phpcs_message"

type_synonym json_entry = "thrown + json_message list"

type_synonym json_files = "(string \<times> json_entry) list"

type_synonym json_parse = "string \<Rightarrow> thrown + json_files"

text \<open>A report of the declared type, as a decoded value.\<close>

definition typed_files :: "phpcs_files \<Rightarrow> json_files" where
  "typed_files files = map (\<lambda>(file, messages). (file, Inr (map Inr messages))) files"

text \<open>
  The \<^verbatim>\<open>try\<close> block. \<^verbatim>\<open>forEach\<close> pushes one diagnostic for each message until the
  callback throws, the loop over the files goes on until an entry throws; the result is
  the array \<^verbatim>\<open>diagnostics\<close>, which is declared before the block, as it stands when
  the block is left, and the value thrown, if any.
\<close>

fun forEach_message ::
  "bool \<Rightarrow> json_message list \<Rightarrow> diagnostic list \<Rightarrow> diagnostic list \<times> thrown option"
where
  "forEach_message snifferShowSources [] diagnostics = (diagnostics, None)"
| "forEach_message snifferShowSources (Inl error # messages) diagnostics =
     (diagnostics, Some error)"
| "forEach_message snifferShowSources (Inr m # messages) diagnostics =
     forEach_message snifferShowSources messages
       (diagnostics @ [diagnostic_of snifferShowSources m])"

fun for_files ::
  "bool \<Rightarrow> json_files \<Rightarrow> diagnostic list \<Rightarrow> diagnostic list \<times> thrown option"
where
  "for_files snifferShowSources [] diagnostics = (diagnostics, None)"
| "for_files snifferShowSources ((file, Inl error) # files) diagnostics =
     (diagnostics, Some error)"
| "for_files snifferShowSources ((file, Inr messages) # files) diagnostics =
     (case forEach_message snifferShowSources messages diagnostics of
        (diagnostics', Some error) \<Rightarrow> (diagnostics', Some error)
      | (diagnostics', None) \<Rightarrow> for_files snifferShowSources files diagnostics')"

definition try_block :: "json_parse \<Rightarrow> bool \<Rightarrow> string \<Rightarrow> diagnostic list \<times> thrown option" where
  "try_block parse snifferShowSources stdout =
     (case parse stdout of
        Inl error \<Rightarrow> ([], Some error)
      | Inr files \<Rightarrow> for_files snifferShowSources files [])"

text \<open>How a promise settles.\<close>

datatype 'a settled = Resolved 'a | Rejected string

text \<open>
  The module's state. A \<^verbatim>\<open>CancellationTokenSource\<close> is a handle, the number of
  sources created before it; \<open>cancelled\<close> holds the sources whose token has
  \<^verbatim>\<open>isCancellationRequested\<close>, \<open>disposed\<close> the disposed ones. \<open>run_document\<close> is the
  \<^verbatim>\<open>document.uri\<close> each run's close handler has captured with its runner, and
  \<open>awaiting_close\<close> holds the runs whose process has not yet emitted \<^verbatim>\<open>close\<close>.
  \<open>shown\<close> lists the texts passed to \<^verbatim>\<open>window.showErrorMessage\<close>. Lines written to
  the logger are left out of this state.
\<close>

record 'u sniffer_state =
  runnerCancellations :: "'u \<rightharpoonup> nat"
  cancelled :: "nat set"
  disposed :: "nat set"
  sources :: nat
  run_document :: "nat \<rightharpoonup> 'u"
  awaiting_close :: "nat set"
  diagnosticCollection :: "'u \<rightharpoonup> diagnostic list"
  shown :: "string list"

definition initial_state :: "'u sniffer_state" where
  "initial_state =
     \<lparr>runnerCancellations = Map.empty, cancelled = {}, disposed = {}, sources = 0,
      run_document = Map.empty, awaiting_close = {}, diagnosticCollection = Map.empty,
      shown = []\<rparr>"

record 'u text_document =
  doc_uri :: 'u
  doc_languageId :: string

record resource_conf =
  snifferEnable :: bool

text \<open>
  \<^verbatim>\<open>validate(document)\<close> up to the spawn of the process: the guards, then the old
  runner of the document is cancelled and disposed and a new one is stored. Nothing is
  awaited between reading the old runner and storing the new one.
\<close>

definition cancel_old :: "'u sniffer_state \<Rightarrow> 'u \<Rightarrow> 'u sniffer_state" where
  "cancel_old st uri =
     (case runnerCancellations st uri of
        None \<Rightarrow> st
      | Some oldRunner \<Rightarrow>
          st\<lparr>cancelled := insert oldRunner (cancelled st),
             disposed := insert oldRunner (disposed st)\<rparr>)"

definition validate ::
  "'u sniffer_state \<Rightarrow> bool \<Rightarrow> resource_conf \<Rightarrow> 'u text_document \<Rightarrow> 'u sniffer_state"
where
  "validate st workspaceFolder resourceConf document =
     (if \<not> workspaceFolder then st
      else if doc_languageId document \<noteq> ''php'' \<or> snifferEnable resourceConf = False then st
      else
        (let st1 = cancel_old st (doc_uri document);
             runner = sources st1
         in st1\<lparr>sources := Suc runner,
                runnerCancellations := (runnerCancellations st1)(doc_uri document \<mapsto> runner),
                run_document := (run_document st1)(runner \<mapsto> doc_uri document),
                awaiting_close := insert runner (awaiting_close st1)\<rparr>))"

text \<open>
  The handler of the process's \<^verbatim>\<open>close\<close> event, for the run with the given runner,
  document, standard and accumulated output. It returns how the promise \<^verbatim>\<open>done\<close>
  settles and the state it leaves. The \<^verbatim>\<open>catch\<close> block does not return, so the
  statements after it publish the array \<^verbatim>\<open>diagnostics\<close> whether or not the
  \<^verbatim>\<open>try\<close> block threw.
\<close>

definition catch_message :: "file_system \<Rightarrow> string \<Rightarrow> string \<Rightarrow> string \<Rightarrow> thrown \<Rightarrow> string" where
  "catch_message fs standard stdout stderr error =
     (let message = [];
          errorString = to_string error;
          message = (if stdout \<noteq> [] then message @ stdout @ [CHR 0x0A] else message);
          message = (if stderr \<noteq> [] then message @ stderr @ [CHR 0x0A] else message);
          message = (if is_Error error then message @ errorString
                     else message @ ''Unexpected error'')
      in if isStandardDisabled fs standard Phpcs stdout stderr
         then getStandardDisabledErrorMsg standard Phpcs stdout stderr
         else message)"

definition publish :: "'u sniffer_state \<Rightarrow> nat \<Rightarrow> 'u \<Rightarrow> diagnostic list \<Rightarrow> 'u sniffer_state" where
  "publish st runner uri diagnostics =
     st\<lparr>diagnosticCollection := (diagnosticCollection st)(uri \<mapsto> diagnostics),
        disposed := insert runner (disposed st),
        runnerCancellations := (runnerCancellations st)(uri := None)\<rparr>"

definition on_close ::
  "file_system \<Rightarrow> json_parse \<Rightarrow> bool \<Rightarrow> string \<Rightarrow> nat \<Rightarrow> 'u \<Rightarrow> string \<Rightarrow> string \<Rightarrow>
   'u sniffer_state \<Rightarrow> unit settled \<times> 'u sniffer_state"
where
  "on_close fs parse snifferShowSources standard runner uri stdout stderr st =
     (if runner \<in> cancelled st \<or> stdout = [] then
        (Resolved (),
         if isStandardDisabled fs standard Phpcs stdout stderr
         then st\<lparr>shown := shown st @ [getStandardDisabledErrorMsg standard Phpcs stdout stderr]\<rparr>
         else st)
      else
        (case try_block parse snifferShowSources stdout of
           (diagnostics, None) \<Rightarrow> (Resolved (), publish st runner uri diagnostics)
         | (diagnostics, Some error) \<Rightarrow>
             (let message = catch_message fs standard stdout stderr error
              in (Rejected message,
                  publish (st\<lparr>shown := shown st @ [message]\<rparr>) runner uri diagnostics))))"

text \<open>
  The events that reach the module: a trigger of \<^verbatim>\<open>validate\<close>, the \<^verbatim>\<open>close\<close> of a
  run's process (delivered once, to a run that was started), the closing of a document
  (\<^verbatim>\<open>clearDocumentDiagnostics\<close>) and the clearing of the collection by \<^verbatim>\<open>refresh\<close>.
\<close>

datatype 'u event =
    Validate bool resource_conf "'u text_document"
  | ProcessClose nat bool string string string
  | DocumentClosed 'u
  | ClearAll

fun step :: "file_system \<Rightarrow> json_parse \<Rightarrow> 'u sniffer_state \<Rightarrow> 'u event \<Rightarrow> 'u sniffer_state" where
  "step fs parse st (Validate workspaceFolder resourceConf document) =
     validate st workspaceFolder resourceConf document"
| "step fs parse st (ProcessClose runner snifferShowSources standard stdout stderr) =
     (case run_document st runner of
        None \<Rightarrow> st
      | Some uri \<Rightarrow>
          if runner \<in> awaiting_close st
          then snd (on_close fs parse snifferShowSources standard runner uri stdout stderr
                      (st\<lparr>awaiting_close := awaiting_close st - {runner}\<rparr>))
          else st)"
| "step fs parse st (DocumentClosed uri) =
     st\<lparr>diagnosticCollection := (diagnosticCollection st)(uri := None)\<rparr>"
| "step fs parse st ClearAll = st\<lparr>diagnosticCollection := Map.empty\<rparr>"

definition run_events ::
  "file_system \<Rightarrow> json_parse \<Rightarrow> 'u event list \<Rightarrow> 'u sniffer_state \<Rightarrow> 'u sniffer_state"
where
  "run_events fs parse evs st = foldl (step fs parse) st evs"

text \<open>A source is live when it has been neither cancelled nor disposed.\<close>

definition live :: "'u sniffer_state \<Rightarrow> nat \<Rightarrow> bool" where
  "live st r = (r \<notin> cancelled st \<and> r \<notin> disposed st)"

section \<open>The fixer: format\<close>

text \<open>
  What \<^verbatim>\<open>spawn.sync\<close> returns: the exit status (\<^const>\<open>None\<close> for \<^verbatim>\<open>null\<close>), the
  output (\<^const>\<open>None\<close> for \<^verbatim>\<open>null\<close>, when the launch failed) and the field
  \<^verbatim>\<open>error\<close>, which is undefined, \<^verbatim>\<open>null\<close> or an object with a code and a message.
\<close>

record console_error =
  err_code :: string
  err_message :: string

datatype launch_error = Undefined | Null | ErrorObject console_error

record fixer_process =
  fixer_status :: "int option"
  fixer_stdout :: "string option"
  fixer_error :: launch_error

definition nodeErrors :: "(string \<times> string) list" where
  "nodeErrors =
     [(''ERR_OPERATION_FAILED'', ''A general script execution error occurred.''),
      (''ENOENT'', ''No such file or directory''),
      (''ETIMEDOUT'', ''Script execution timed out.'')]"

definition node_internal_error :: "console_error \<Rightarrow> string" where
  "node_internal_error e =
     ''FIXER - Node Internal Error: '' @ err_message e @ [CHR 0x0A] @
     template_str (map_of nodeErrors (err_code e))"

text \<open>The errors the engine throws when a property of \<^verbatim>\<open>null\<close> is read.\<close>

definition null_property_error :: "string \<Rightarrow> thrown" where
  "null_property_error property =
     \<lparr>is_Error = True,
      to_string = ''TypeError: Cannot read properties of null (reading ''
                  @ [CHR 0x27] @ property @ [CHR 0x27] @ '')''\<rparr>"

text \<open>
  The \<^verbatim>\<open>switch (exitcode)\<close> of \<^verbatim>\<open>format\<close>: from the mapped exit code, its message,
  the trimmed output \<open>stdout\<close> (also the fixed text), the document text and the launch
  error, the values of \<open>error\<close>, \<open>result\<close> and \<open>message\<close> after it, or the value
  thrown. The cases compare with \<^verbatim>\<open>===\<close>, so the string \<^verbatim>\<open>'-1'\<close> and the numbers 0
  and 5 are matched as such. The first case leaves only for an undefined launch error
  (\<^verbatim>\<open>=== undefined\<close>) and reads the code of any other, \<^verbatim>\<open>null\<close> included; the other
  cases test \<^verbatim>\<open>!= null\<close>.
\<close>

definition format_switch ::
  "file_system \<Rightarrow> js_code \<Rightarrow> string option \<Rightarrow> string \<Rightarrow> string \<Rightarrow> launch_error \<Rightarrow>
   string \<Rightarrow> string \<Rightarrow> thrown + string \<times> string \<times> string"
where
  "format_switch fs exitcode errorMsg stdout fileText error0 standard stderr =
     (let fixed = stdout in
      if exitcode = Str ''-1'' then
        (let error = template_str (map_of nodeErrors ''ERR_OPERATION_FAILED'') in
         case error0 of
           Undefined \<Rightarrow> Inr (error, [], [])
         | Null \<Rightarrow> Inl (null_property_error ''code'')
         | ErrorObject execError \<Rightarrow>
             (let error = (if err_code execError = ''ETIMEDOUT''
                           then ''FIXER: Formatting the document timed out.'' else error);
                  error = (if err_code execError = ''ENOENT''
                           then ''FIXER: '' @ err_message execError @ ''. executablePath not found.''
                           else error)
              in Inr (error, [], [])))
      else if exitcode = Num 0 then
        (if length fixed > 0 \<and> fixed \<noteq> fileText
         then Inr ([], fixed, ''All fixable errors were fixed correctly.'')
         else Inr ([], [], ''No fixable errors were found.''))
      else if exitcode = Num 5 then
        (if length fixed > 0 \<and> fixed \<noteq> fileText
         then Inr ([], fixed, ''FIXER: '' @ template_str errorMsg)
         else (case error0 of
                 ErrorObject e \<Rightarrow> Inr (node_internal_error e, [], [])
               | _ \<Rightarrow> Inr ([], [], [])))
      else
        (if isStandardDisabled fs standard Phpcbf stdout stderr
         then Inr (getStandardDisabledErrorMsg standard Phpcbf stdout stderr, [], [])
         else
           (let error = ''FIXER: '' @ template_str errorMsg in
            if length fixed > 0 then Inr (error @ [CHR 0x0A] @ fixed @ [CHR 0x0A], [], [])
            else (case error0 of
                    ErrorObject e \<Rightarrow> Inr (node_internal_error e, [], [])
                  | _ \<Rightarrow> Inr (''FATAL: Unknown error occurred.'', [], [])))))"

text \<open>
  The end of \<^verbatim>\<open>format\<close>: with \<^verbatim>\<open>settings.debug\<close> and no error the message is shown;
  a non-empty error rejects the promise, otherwise it resolves to the result. The
  second component lists the texts passed to \<^verbatim>\<open>window.showInformationMessage\<close>.
\<close>

definition format_finish :: "bool \<Rightarrow> string \<times> string \<times> string \<Rightarrow> string settled \<times> string list" where
  "format_finish debug erm =
     (case erm of (error, result, message) \<Rightarrow>
        (if error \<noteq> [] then Rejected error else Resolved result,
         if debug \<and> error = [] then [message] else []))"

definition format_reconcile ::
  "file_system \<Rightarrow> bool \<Rightarrow> js_code \<Rightarrow> string option \<Rightarrow> string \<Rightarrow> string \<Rightarrow> launch_error \<Rightarrow>
   string \<Rightarrow> string \<Rightarrow> thrown + string settled \<times> string list"
where
  "format_reconcile fs debug exitcode errorMsg stdout fileText error0 standard stderr =
     (case format_switch fs exitcode errorMsg stdout fileText error0 standard stderr of
        Inl thrown_value \<Rightarrow> Inl thrown_value
      | Inr erm \<Rightarrow> Inr (format_finish debug erm))"

text \<open>
  The identifier \<^verbatim>\<open>stderr\<close> as \<^verbatim>\<open>format\<close> reads it. The fixer declares
  \<^verbatim>\<open>stdout\<close> and \<^verbatim>\<open>fixed\<close> and has no declaration, parameter or import of
  \<^verbatim>\<open>stderr\<close>, so evaluating the identifier throws.
\<close>

definition fixer_stderr :: "thrown + string" where
  "fixer_stderr = Inl \<lparr>is_Error = True, to_string = ''ReferenceError: stderr is not defined''\<rparr>"

text \<open>
  \<^verbatim>\<open>format(document, fullDocument)\<close>. The settings, the resolved standard, the detected
  tool version, the document and the finished fixer process are arguments. The function
  is asynchronous: a value thrown in its body (\<^const>\<open>Inl\<close>) rejects its promise with that
  value. Otherwise the result is how the promise settles and the information messages
  shown. The second component is the message table left behind. After the guards the
  body takes the output of the process (\<^verbatim>\<open>toString\<close> of \<^verbatim>\<open>null\<close> throws), maps
  the exit code, gets its message, and then tests \<^verbatim>\<open>stderr\<close> before it reaches the
  \<^verbatim>\<open>switch\<close>.
\<close>

record fixer_conf =
  fixerEnable :: bool
  debug :: bool

definition format ::
  "file_system \<Rightarrow> error_msgs \<Rightarrow> string option \<Rightarrow> fixer_conf \<Rightarrow> bool \<Rightarrow> string \<Rightarrow> string \<Rightarrow>
   string \<Rightarrow> fixer_process \<Rightarrow> (thrown + string settled \<times> string list) \<times> error_msgs"
where
  "format fs msgs snifferVersionString conf workspaceFolder languageId standard fileText fixer =
     (if \<not> workspaceFolder then (Inr (Resolved [], []), msgs)
      else if languageId \<noteq> ''php'' then (Inr (Resolved [], []), msgs)
      else if fixerEnable conf = False then
        (Inr (Resolved [],
              [''Fixer is disable for this workspace or PHPCBF was not found for this workspace.'']),
         msgs)
      else
        (case fixer_stdout fixer of
           None \<Rightarrow> (Inl (null_property_error ''toString''), msgs)
         | Some output \<Rightarrow>
             (let stdout = trim output;
                  exitcode = fst (getMappedExitCode msgs snifferVersionString
                                    (map_option Num (fixer_status fixer)) Fixer);
                  (errorMsg, msgs') = getErrorMsg msgs exitcode Fixer
              in case fixer_stderr of
                   Inl thrown_value \<Rightarrow> (Inl thrown_value, msgs')
                 | Inr stderr \<Rightarrow>
                     (format_reconcile fs (debug conf) exitcode errorMsg stdout fileText
                        (fixer_error fixer) standard stderr, msgs'))))"

section \<open>The invariant of the runner map\<close>

text \<open>
  What holds of the runner map in every state the module reaches: an entry of the map
  is a run of that document; every run's handle is below the number of sources; a live
  run of a document is the entry of that document; a run still awaiting its \<^verbatim>\<open>close\<close>
  has been disposed only by being cancelled; and no handle at or above the number of
  sources is cancelled or disposed.
\<close>

definition runner_invariant :: "'u sniffer_state \<Rightarrow> bool" where
  "runner_invariant st \<longleftrightarrow>
     (\<forall>u r. runnerCancellations st u = Some r \<longrightarrow> run_document st r = Some u) \<and>
     (\<forall>r u. run_document st r = Some u \<longrightarrow> r < sources st) \<and>
     (\<forall>r u. run_document st r = Some u \<and> live st r \<longrightarrow> runnerCancellations st u = Some r) \<and>
     (\<forall>r. r \<in> awaiting_close st \<and> r \<in> disposed st \<longrightarrow> r \<in> cancelled st) \<and>
     (\<forall>r. r \<in> cancelled st \<or> r \<in> disposed st \<longrightarrow> r < sources st)"

section \<open>Sample inputs\<close>

text \<open>
  Concrete inputs for the examples below: a file system with no files; a report with
  one message, a second output whose first file has that message and whose second file
  has no list of messages, and a \<^verbatim>\<open>JSON.parse\<close> that decodes the two and throws on
  any other text; a document, and two states reached from the initial one. In \<open>superseded_state\<close> a second run of the
  document has replaced the first and has published its report while the first has not
  closed; in \<open>republished_state\<close> a first run has published and a second has started.
\<close>

definition no_files :: file_system where
  "no_files path = Absent"

definition syntax_error :: thrown where
  "syntax_error = \<lparr>is_Error = True, to_string = ''SyntaxError: Unexpected token P in JSON at position 0''\<rparr>"

definition sample_message :: phpcs_message where
  "sample_message =
     \<lparr>m_message = ''Missing file doc comment'', m_line = 2, m_column = 1, m_type = ERROR,
      m_source = ''PEAR.Commenting.FileComment.Missing'', m_fixable = False\<rparr>"

definition sample_stdout :: string where
  "sample_stdout =
     ''{'' @ dq ''files'' @ '':{'' @ dq ''a.php'' @ '':{'' @ dq ''messages'' @ '':[{'' @
     dq ''message'' @ '':'' @ dq ''Missing file doc comment'' @ '','' @
     dq ''source'' @ '':'' @ dq ''PEAR.Commenting.FileComment.Missing'' @ '','' @
     dq ''type'' @ '':'' @ dq ''ERROR'' @ '','' @
     dq ''line'' @ '':2,'' @ dq ''column'' @ '':1,'' @ dq ''fixable'' @ '':false}]}}}''"

definition partial_stdout :: string where
  "partial_stdout =
     ''{'' @ dq ''files'' @ '':{'' @ dq ''a.php'' @ '':{'' @ dq ''messages'' @ '':[{'' @
     dq ''message'' @ '':'' @ dq ''Missing file doc comment'' @ '','' @
     dq ''source'' @ '':'' @ dq ''PEAR.Commenting.FileComment.Missing'' @ '','' @
     dq ''type'' @ '':'' @ dq ''ERROR'' @ '','' @
     dq ''line'' @ '':2,'' @ dq ''column'' @ '':1,'' @ dq ''fixable'' @ '':false}]},'' @
     dq ''b.php'' @ '':{}}}''"

definition type_error :: thrown where
  "type_error =
     \<lparr>is_Error = True,
      to_string = ''TypeError: Cannot read properties of undefined (reading ''
                  @ [CHR 0x27] @ ''forEach'' @ [CHR 0x27] @ '')''\<rparr>"

definition sample_parse :: json_parse where
  "sample_parse stdout =
     (if stdout = sample_stdout then Inr (typed_files [(''a.php'', [sample_message])])
      else if stdout = partial_stdout
      then Inr [(''a.php'', Inr [Inr sample_message]), (''b.php'', Inl type_error)]
      else Inl syntax_error)"

definition sample_document :: "string text_document" where
  "sample_document = \<lparr>doc_uri = ''file:///a.php'', doc_languageId = ''php''\<rparr>"

definition superseded_state :: "string sniffer_state" where
  "superseded_state =
     run_events no_files sample_parse
       [Validate True \<lparr>snifferEnable = True\<rparr> sample_document,
        Validate True \<lparr>snifferEnable = True\<rparr> sample_document,
        ProcessClose 1 False [] sample_stdout []]
       initial_state"

definition republished_state :: "string sniffer_state" where
  "republished_state =
     run_events no_files sample_parse
       [Validate True \<lparr>snifferEnable = True\<rparr> sample_document,
        ProcessClose 0 False [] sample_stdout [],
        Validate True \<lparr>snifferEnable = True\<rparr> sample_document]
       initial_state"

section \<open>Properties of errors.ts\<close>

lemma string_of_nat_digit: "n < 10 \<Longrightarrow> string_of_nat n = [digit_char n]"
  by (simp add: string_of_nat.simps)

lemma string_of_int_small [simp]:
  "string_of_int 0 = ''0''"
  "string_of_int 1 = ''1''"
  "string_of_int 2 = ''2''"
  "string_of_int 3 = ''3''"
  "string_of_int 5 = ''5''"
  by (simp_all add: string_of_int_def string_of_nat_digit digit_char_def)

lemma status3x_lookup:
  "map_of (status3x Sniffer) ''0'' = Some (Num 0)"
  "map_of (status3x Sniffer) ''1'' = Some (Num 2)"
  "map_of (status3x Sniffer) ''2'' = Some (Num 1)"
  "map_of (status3x Sniffer) ''3'' = Some (Num 16)"
  "map_of (status3x Sniffer) ''-1'' = Some (Str ''-1'')"
  "map_of (status3x Fixer) ''0'' = Some (Num 0)"
  "map_of (status3x Fixer) ''1'' = Some (Num 0)"
  "map_of (status3x Fixer) ''2'' = Some (Num 5)"
  "map_of (status3x Fixer) ''3'' = Some (Num 16)"
  "map_of (status3x Fixer) ''-1'' = Some (Str ''-1'')"
  by (simp_all add: status3x_def)

text \<open>With a version that starts with \<^verbatim>\<open>3.\<close> the legacy table decides.\<close>

lemma legacy_status:
  assumes "prefix ''3.'' v"
  shows "fst (getMappedExitCode msgs (Some v) code0 type) =
     (let code = (case code0 of None \<Rightarrow> Str ''-1'' | Some c \<Rightarrow> c)
      in case map_of (status3x type) (property_key code) of
           Some mapped \<Rightarrow> mapped
         | None \<Rightarrow> code)"
proof -
  from assms obtain w where v: "v = ''3.'' @ w"
    by (auto simp: prefix_def)
  then have "\<not> prefix ''4.'' v"
    by simp
  with assms show ?thesis
    by (simp add: getMappedExitCode_def Let_def split: option.splits)
qed

text \<open>
  C1. With a legacy (3.x) version, in sniffer mode \<^verbatim>\<open>getMappedExitCode\<close> maps 0 to 0
  (no errors), 1 to 2 (non-auto-fixable), 2 to 1 (auto-fixable), 3 to 16 (processing
  error) and the missing status, encoded \<^verbatim>\<open>'-1'\<close>, to \<^verbatim>\<open>'-1'\<close>; in fixer mode the
  mapping is the same except that 1 maps to 0 and 2 maps to 5 (failed to fix some errors).
\<close>

theorem getMappedExitCode_legacy:
  assumes "prefix ''3.'' v"
  shows "fst (getMappedExitCode msgs (Some v) (Some (Num 0)) Sniffer) = Num 0
       \<and> fst (getMappedExitCode msgs (Some v) (Some (Num 1)) Sniffer) = Num 2
       \<and> fst (getMappedExitCode msgs (Some v) (Some (Num 2)) Sniffer) = Num 1
       \<and> fst (getMappedExitCode msgs (Some v) (Some (Num 3)) Sniffer) = Num 16
       \<and> fst (getMappedExitCode msgs (Some v) None Sniffer) = Str ''-1''
       \<and> fst (getMappedExitCode msgs (Some v) (Some (Str ''-1'')) Sniffer) = Str ''-1''
       \<and> fst (getMappedExitCode msgs (Some v) (Some (Num 0)) Fixer) = Num 0
       \<and> fst (getMappedExitCode msgs (Some v) (Some (Num 1)) Fixer) = Num 0
       \<and> fst (getMappedExitCode msgs (Some v) (Some (Num 2)) Fixer) = Num 5
       \<and> fst (getMappedExitCode msgs (Some v) (Some (Num 3)) Fixer) = Num 16
       \<and> fst (getMappedExitCode msgs (Some v) None Fixer) = Str ''-1''
       \<and> fst (getMappedExitCode msgs (Some v) (Some (Str ''-1'')) Fixer) = Str ''-1''"
  by (simp add: legacy_status [OF assms] status3x_lookup)

theorem getMappedExitCode_legacy_witness:
  "prefix ''3.'' ''3.13.2''
   \<and> fst (getMappedExitCode errorMsgs (Some ''3.13.2'') (Some (Num 1)) Sniffer) = Num 2
   \<and> fst (getMappedExitCode errorMsgs (Some ''3.13.2'') (Some (Num 1)) Fixer) = Num 0
   \<and> fst (getMappedExitCode errorMsgs (Some ''3.13.2'') (Some (Num 2)) Fixer) = Num 5"
  using getMappedExitCode_legacy [of "''3.13.2''" errorMsgs] by simp

text \<open>
  C9. When the version of the tool is undefined, \<^verbatim>\<open>getMappedExitCode\<close> writes one line
  to the logger and resolves to the code it was given, unmapped, with \<^verbatim>\<open>'-1'\<close> in the
  place of a null code; this holds for every code and both modes.
\<close>

theorem getMappedExitCode_unknown_version:
  "getMappedExitCode msgs None (Some code) type =
     (code, [LogError ''Unable to determine sniffer version''])
   \<and> getMappedExitCode msgs None None type =
     (Str ''-1'', [LogError ''Unable to determine sniffer version''])"
  by (simp add: getMappedExitCode_def)

text \<open>Once the entry for status 0 holds the fixer's message, no later call changes it.\<close>

lemma getErrorMsg_calls_keeps:
  "map_of msgs ''0'' = Some ''No errors were found or all errors were fixed'' \<Longrightarrow>
   map_of (getErrorMsg_calls msgs calls) ''0'' =
     Some ''No errors were found or all errors were fixed''"
proof (induction calls arbitrary: msgs)
  case Nil
  then show ?case by simp
next
  case (Cons c calls)
  obtain status type where c: "c = (status, type)"
    by (cases c)
  have "map_of (snd (getErrorMsg msgs status type)) ''0'' =
          Some ''No errors were found or all errors were fixed''"
    using Cons.prems by (simp add: getErrorMsg_def Let_def update_conv')
  then show ?case
    using Cons.IH c by simp
qed

text \<open>
  C10. \<^verbatim>\<open>getErrorMsg\<close> is not a function of its arguments alone. On the table as
  loaded, \<^verbatim>\<open>getErrorMsg(0, 'sniffer')\<close> is \<^verbatim>\<open>No errors were found\<close>; after one call
  with type \<^verbatim>\<open>'fixer'\<close> (of any status), and after any further calls, the same call
  returns \<^verbatim>\<open>No errors were found or all errors were fixed\<close>.
\<close>

theorem getErrorMsg_not_pure:
  "fst (getErrorMsg errorMsgs (Num 0) Sniffer) = Some ''No errors were found''
   \<and> fst (getErrorMsg (getErrorMsg_calls (snd (getErrorMsg errorMsgs status Fixer)) calls)
            (Num 0) Sniffer)
       = Some ''No errors were found or all errors were fixed''"
proof -
  have a: "fst (getErrorMsg errorMsgs (Num 0) Sniffer) = Some ''No errors were found''"
    by (simp add: getErrorMsg_def errorMsgs_def)
  have "map_of (snd (getErrorMsg errorMsgs status Fixer)) ''0'' =
          Some ''No errors were found or all errors were fixed''"
    by (simp add: getErrorMsg_def Let_def update_conv')
  then have "map_of (getErrorMsg_calls (snd (getErrorMsg errorMsgs status Fixer)) calls) ''0''
      = Some ''No errors were found or all errors were fixed''"
    by (rule getErrorMsg_calls_keeps)
  then have b: "fst (getErrorMsg
                      (getErrorMsg_calls (snd (getErrorMsg errorMsgs status Fixer)) calls)
                      (Num 0) Sniffer)
       = Some ''No errors were found or all errors were fixed''"
    by (simp add: getErrorMsg_def)
  from a b show ?thesis by simp
qed

section \<open>Properties of the disabled-standard detector\<close>

text \<open>
  \<open>js_includes\<close> is substring search.
\<close>

lemma js_includes_iff: "js_includes s sub \<longleftrightarrow> (\<exists>a b. s = a @ sub @ b)"
proof (induction s)
  case Nil
  then show ?case by auto
next
  case (Cons c cs)
  show ?case
  proof
    assume "js_includes (c # cs) sub"
    then consider "prefix sub (c # cs)" | "js_includes cs sub" by auto
    then show "\<exists>a b. c # cs = a @ sub @ b"
    proof cases
      case 1
      then obtain b where "c # cs = sub @ b" by (auto simp: prefix_def)
      then have "c # cs = [] @ sub @ b" by simp
      then show ?thesis by blast
    next
      case 2
      with Cons.IH obtain a b where "cs = a @ sub @ b" by blast
      then have "c # cs = (c # a) @ sub @ b" by simp
      then show ?thesis by blast
    qed
  next
    assume "\<exists>a b. c # cs = a @ sub @ b"
    then obtain a b where ab: "c # cs = a @ sub @ b" by blast
    show "js_includes (c # cs) sub"
    proof (cases a)
      case Nil
      with ab have "prefix sub (c # cs)" by (simp add: prefix_def)
      then show ?thesis by simp
    next
      case (Cons x a')
      with ab have "cs = a' @ sub @ b" by simp
      with Cons.IH have "js_includes cs sub" by blast
      then show ?thesis by simp
    qed
  qed
qed



text \<open>
  C5, as the code has it. For a ruleset that is read and contains
  \<^verbatim>\<open>phpcbf-only="true"\<close>, with output that contains \<^verbatim>\<open>No sniffs were registered\<close>,
  \<^verbatim>\<open>isStandardDisabled\<close> returns true for the validator (\<^verbatim>\<open>'phpcs'\<close>); for the fixer
  (\<^verbatim>\<open>'phpcbf'\<close>) it returns true only if the ruleset also contains
  \<^verbatim>\<open>phpcs-only="true"\<close> or \<^verbatim>\<open>phpcbf-only="false"\<close>.
\<close>

theorem isStandardDisabled_phpcbf_only:
  assumes "standard \<noteq> []" and "fs standard = Readable content"
    and "js_includes content (''phpcbf-only='' @ dq ''true'')"
    and "js_includes stdout ''No sniffs were registered'' \<or>
         js_includes stderr ''No sniffs were registered''"
  shows "isStandardDisabled fs standard Phpcs stdout stderr
       \<and> (isStandardDisabled fs standard Phpcbf stdout stderr \<longleftrightarrow>
            js_includes content (''phpcs-only='' @ dq ''true'') \<or>
            js_includes content (''phpcbf-only='' @ dq ''false''))"
  using assms
  by (auto simp: isStandardDisabled_def isStandardDisabled_logged_def hasNoSniffsError_def)

theorem isStandardDisabled_phpcbf_only_witness:
  "isStandardDisabled
        (no_files(''phpcs.xml'' := Readable (''<ruleset phpcbf-only='' @ dq ''true'' @ ''>'')))
        ''phpcs.xml'' Phpcs [] ''ERROR: No sniffs were registered''
   \<and> \<not> isStandardDisabled
        (no_files(''phpcs.xml'' := Readable (''<ruleset phpcbf-only='' @ dq ''true'' @ ''>'')))
        ''phpcs.xml'' Phpcbf [] ''ERROR: No sniffs were registered''"
proof -
  let ?c = "''<ruleset phpcbf-only='' @ dq ''true'' @ ''>''"
  let ?fs = "no_files(''phpcs.xml'' := Readable ?c)"
  have a: "''phpcs.xml'' \<noteq> []" by simp
  have b: "?fs ''phpcs.xml'' = Readable ?c" by simp
  have c: "js_includes ?c (''phpcbf-only='' @ dq ''true'')" by (simp add: dq_def)
  have d: "js_includes [] ''No sniffs were registered'' \<or>
           js_includes ''ERROR: No sniffs were registered'' ''No sniffs were registered''"
    by simp
  have e: "\<not> js_includes ?c (''phpcs-only='' @ dq ''true'')"
          "\<not> js_includes ?c (''phpcbf-only='' @ dq ''false'')"
    by (simp_all add: dq_def)
  show ?thesis
    using isStandardDisabled_phpcbf_only
            [of "''phpcs.xml''" ?fs ?c "[]" "''ERROR: No sniffs were registered''", OF a b c d] e
    by simp
qed

text \<open>
  The two modes the other way round do not hold: with a ruleset whose only attribute is
  \<^verbatim>\<open>phpcbf-only="true"\<close> the detector answers false for the fixer and true for the
  validator.
\<close>

theorem isStandardDisabled_phpcbf_only_counterexample:
  "\<not> isStandardDisabled
        (no_files(''phpcs.xml'' := Readable (''<ruleset phpcbf-only='' @ dq ''true'' @ ''>'')))
        ''phpcs.xml'' Phpcbf ''ERROR: No sniffs were registered'' []
   \<and> isStandardDisabled
        (no_files(''phpcs.xml'' := Readable (''<ruleset phpcbf-only='' @ dq ''true'' @ ''>'')))
        ''phpcs.xml'' Phpcs ''ERROR: No sniffs were registered'' []"
  by (simp add: isStandardDisabled_def isStandardDisabled_logged_def hasNoSniffsError_def dq_def)

section \<open>Properties of the validation runs\<close>

text \<open>
  The clauses of the invariant, one at a time.
\<close>

lemma runner_invariantI:
  assumes "\<And>u r. runnerCancellations st u = Some r \<Longrightarrow> run_document st r = Some u"
    and "\<And>r u. run_document st r = Some u \<Longrightarrow> r < sources st"
    and "\<And>r u. run_document st r = Some u \<Longrightarrow> live st r \<Longrightarrow> runnerCancellations st u = Some r"
    and "\<And>r. r \<in> awaiting_close st \<Longrightarrow> r \<in> disposed st \<Longrightarrow> r \<in> cancelled st"
    and "\<And>r. r \<in> cancelled st \<or> r \<in> disposed st \<Longrightarrow> r < sources st"
  shows "runner_invariant st"
  unfolding runner_invariant_def using assms by blast

lemma inv_entry:
  "runner_invariant st \<Longrightarrow> runnerCancellations st u = Some r \<Longrightarrow> run_document st r = Some u"
  unfolding runner_invariant_def by blast

lemma inv_bound: "runner_invariant st \<Longrightarrow> run_document st r = Some u \<Longrightarrow> r < sources st"
  unfolding runner_invariant_def by blast

lemma inv_live:
  "runner_invariant st \<Longrightarrow> run_document st r = Some u \<Longrightarrow> live st r \<Longrightarrow>
   runnerCancellations st u = Some r"
  unfolding runner_invariant_def by blast

lemma inv_await:
  "runner_invariant st \<Longrightarrow> r \<in> awaiting_close st \<Longrightarrow> r \<in> disposed st \<Longrightarrow> r \<in> cancelled st"
  unfolding runner_invariant_def by blast

lemma inv_fresh:
  "runner_invariant st \<Longrightarrow> r \<in> cancelled st \<or> r \<in> disposed st \<Longrightarrow> r < sources st"
  unfolding runner_invariant_def by blast

lemma invariant_initial: "runner_invariant initial_state"
  by (simp add: runner_invariant_def initial_state_def)

lemma invariant_cancel_old:
  assumes inv: "runner_invariant st"
  shows "runner_invariant (cancel_old st uri)"
proof (cases "runnerCancellations st uri")
  case None
  then show ?thesis using inv by (simp add: cancel_old_def)
next
  case (Some old)
  let ?st' = "st\<lparr>cancelled := insert old (cancelled st), disposed := insert old (disposed st)\<rparr>"
  have old: "old < sources st"
    using inv_bound [OF inv inv_entry [OF inv Some]] .
  have "runner_invariant ?st'"
  proof (rule runner_invariantI)
    fix u r assume "runnerCancellations ?st' u = Some r"
    then show "run_document ?st' r = Some u"
      using inv_entry [OF inv, of u r] by simp
  next
    fix r u assume "run_document ?st' r = Some u"
    then show "r < sources ?st'"
      using inv_bound [OF inv, of r u] by simp
  next
    fix r u assume "run_document ?st' r = Some u" and "live ?st' r"
    then have "run_document st r = Some u" and "live st r"
      by (simp_all add: live_def)
    then show "runnerCancellations ?st' u = Some r"
      using inv_live [OF inv, of r u] by simp
  next
    fix r assume "r \<in> awaiting_close ?st'" and "r \<in> disposed ?st'"
    then have "r \<in> awaiting_close st" and "r = old \<or> r \<in> disposed st"
      by simp_all
    then have "r = old \<or> r \<in> cancelled st"
      using inv_await [OF inv, of r] by blast
    then show "r \<in> cancelled ?st'"
      by simp
  next
    fix r assume "r \<in> cancelled ?st' \<or> r \<in> disposed ?st'"
    then have "r = old \<or> (r \<in> cancelled st \<or> r \<in> disposed st)"
      by auto
    then have "r < sources st"
      using old inv_fresh [OF inv, of r] by blast
    then show "r < sources ?st'"
      by simp
  qed
  then show ?thesis
    using Some by (simp add: cancel_old_def)
qed

lemma cancel_old_fields:
  "runnerCancellations (cancel_old st uri) = runnerCancellations st"
  "sources (cancel_old st uri) = sources st"
  "run_document (cancel_old st uri) = run_document st"
  "awaiting_close (cancel_old st uri) = awaiting_close st"
  "diagnosticCollection (cancel_old st uri) = diagnosticCollection st"
  by (simp_all add: cancel_old_def split: option.splits)

lemma cancel_old_not_live:
  "runnerCancellations st uri = Some old \<Longrightarrow> \<not> live (cancel_old st uri) old"
  by (simp add: cancel_old_def live_def)

lemma invariant_new_runner:
  assumes inv: "runner_invariant st"
    and dead: "\<And>r. runnerCancellations st u = Some r \<Longrightarrow> \<not> live st r"
  shows "runner_invariant
           (st\<lparr>sources := Suc (sources st),
               runnerCancellations := (runnerCancellations st)(u \<mapsto> sources st),
               run_document := (run_document st)(sources st \<mapsto> u),
               awaiting_close := insert (sources st) (awaiting_close st)\<rparr>)"
    (is "runner_invariant ?st'")
proof (rule runner_invariantI)
  fix v r assume a: "runnerCancellations ?st' v = Some r"
  show "run_document ?st' r = Some v"
  proof (cases "v = u")
    case True
    with a show ?thesis by simp
  next
    case False
    with a have rc: "runnerCancellations st v = Some r" by simp
    then have "run_document st r = Some v"
      using inv by (rule inv_entry [rotated])
    moreover from this have "r \<noteq> sources st"
      using inv_bound [OF inv, of r v] by simp
    ultimately show ?thesis by simp
  qed
next
  fix r v assume a: "run_document ?st' r = Some v"
  show "r < sources ?st'"
  proof (cases "r = sources st")
    case True
    then show ?thesis by simp
  next
    case False
    with a have "run_document st r = Some v" by simp
    then have "r < sources st" using inv by (rule inv_bound [rotated])
    then show ?thesis by simp
  qed
next
  fix r v assume a: "run_document ?st' r = Some v" and l: "live ?st' r"
  show "runnerCancellations ?st' v = Some r"
  proof (cases "r = sources st")
    case True
    with a show ?thesis by simp
  next
    case False
    with a l have rd: "run_document st r = Some v" and lv: "live st r"
      by (simp_all add: live_def)
    then have rc: "runnerCancellations st v = Some r"
      using inv_live [OF inv] by blast
    with dead lv have "v \<noteq> u" by blast
    with rc show ?thesis by simp
  qed
next
  fix r assume "r \<in> awaiting_close ?st'" and d: "r \<in> disposed ?st'"
  then have "r = sources st \<or> r \<in> awaiting_close st" by simp
  moreover from d have d': "r \<in> disposed st" by simp
  moreover from d' have "r < sources st" using inv_fresh [OF inv, of r] by blast
  ultimately have "r \<in> awaiting_close st" by auto
  then have "r \<in> cancelled st" using d' inv_await [OF inv] by blast
  then show "r \<in> cancelled ?st'" by simp
next
  fix r assume "r \<in> cancelled ?st' \<or> r \<in> disposed ?st'"
  then have "r \<in> cancelled st \<or> r \<in> disposed st" by simp
  then have "r < sources st" using inv by (rule inv_fresh [rotated])
  then show "r < sources ?st'" by simp
qed

lemma invariant_validate:
  assumes "runner_invariant st"
  shows "runner_invariant (validate st workspaceFolder resourceConf document)"
proof -
  let ?u = "doc_uri document"
  let ?st1 = "cancel_old st ?u"
  have inv1: "runner_invariant ?st1"
    using assms by (rule invariant_cancel_old)
  have dead: "\<And>r. runnerCancellations ?st1 ?u = Some r \<Longrightarrow> \<not> live ?st1 r"
    by (simp add: cancel_old_fields cancel_old_not_live)
  show ?thesis
    using assms invariant_new_runner [OF inv1 dead]
    by (simp add: validate_def Let_def)
qed

lemma invariant_publish:
  assumes inv: "runner_invariant st"
    and doc: "run_document st runner = Some uri"
    and nd: "runner \<notin> disposed st" and nc: "runner \<notin> cancelled st"
    and na: "runner \<notin> awaiting_close st"
  shows "runner_invariant (publish st runner uri diagnostics)" (is "runner_invariant ?st'")
proof -
  have lv: "live st runner"
    using nd nc by (simp add: live_def)
  have rc: "runnerCancellations st uri = Some runner"
    using inv doc lv by (rule inv_live)
  have f: "runnerCancellations ?st' = (runnerCancellations st)(uri := None)"
    "run_document ?st' = run_document st" "sources ?st' = sources st"
    "disposed ?st' = insert runner (disposed st)" "cancelled ?st' = cancelled st"
    "awaiting_close ?st' = awaiting_close st"
    by (simp_all add: publish_def)
  show ?thesis
  proof (rule runner_invariantI)
    fix u r assume "runnerCancellations ?st' u = Some r"
    then have "runnerCancellations st u = Some r"
      by (simp add: f split: if_splits)
    then show "run_document ?st' r = Some u"
      using inv_entry [OF inv] by (simp add: f)
  next
    fix r u assume "run_document ?st' r = Some u"
    then show "r < sources ?st'"
      using inv_bound [OF inv, of r u] by (simp add: f)
  next
    fix r u
    assume "run_document ?st' r = Some u" and "live ?st' r"
    then have rd: "run_document st r = Some u" and l: "live st r" and ne: "r \<noteq> runner"
      by (auto simp: f live_def)
    then have rc': "runnerCancellations st u = Some r"
      using inv_live [OF inv] by blast
    with rc ne have "u \<noteq> uri" by auto
    with rc' show "runnerCancellations ?st' u = Some r"
      by (simp add: f)
  next
    fix r
    assume "r \<in> awaiting_close ?st'" and "r \<in> disposed ?st'"
    then have "r \<in> awaiting_close st" and "r = runner \<or> r \<in> disposed st"
      by (simp_all add: f)
    with na have "r \<in> awaiting_close st" and "r \<in> disposed st"
      by blast+
    then have "r \<in> cancelled st"
      using inv_await [OF inv] by blast
    then show "r \<in> cancelled ?st'"
      by (simp add: f)
  next
    fix r
    assume "r \<in> cancelled ?st' \<or> r \<in> disposed ?st'"
    then have "r = runner \<or> (r \<in> cancelled st \<or> r \<in> disposed st)"
      by (auto simp: f)
    then have "r < sources st"
      using inv_bound [OF inv doc] inv_fresh [OF inv, of r] by blast
    then show "r < sources ?st'"
      by (simp add: f)
  qed
qed

lemma invariant_fields:
  assumes "runnerCancellations st' = runnerCancellations st"
    and "run_document st' = run_document st" and "sources st' = sources st"
    and "cancelled st' = cancelled st" and "disposed st' = disposed st"
    and "awaiting_close st' \<subseteq> awaiting_close st"
    and inv: "runner_invariant st"
  shows "runner_invariant st'"
proof (rule runner_invariantI)
  fix u r assume "runnerCancellations st' u = Some r"
  then show "run_document st' r = Some u"
    using inv_entry [OF inv, of u r] assms(1,2) by simp
next
  fix r u assume "run_document st' r = Some u"
  then show "r < sources st'"
    using inv_bound [OF inv, of r u] assms(2,3) by simp
next
  fix r u assume "run_document st' r = Some u" and "live st' r"
  then have "run_document st r = Some u" and "live st r"
    using assms(2,4,5) by (simp_all add: live_def)
  then show "runnerCancellations st' u = Some r"
    using inv_live [OF inv, of r u] assms(1) by simp
next
  fix r assume "r \<in> awaiting_close st'" and "r \<in> disposed st'"
  then have "r \<in> awaiting_close st" and "r \<in> disposed st"
    using assms(5,6) by auto
  then show "r \<in> cancelled st'"
    using inv_await [OF inv, of r] assms(4) by simp
next
  fix r assume "r \<in> cancelled st' \<or> r \<in> disposed st'"
  then have "r \<in> cancelled st \<or> r \<in> disposed st"
    using assms(4,5) by simp
  then show "r < sources st'"
    using inv_fresh [OF inv, of r] assms(3) by simp
qed

lemma invariant_shown:
  "runner_invariant st \<Longrightarrow> runner_invariant (st\<lparr>shown := x\<rparr>)"
  by (rule invariant_fields [of _ st]) simp_all

lemma invariant_awaiting:
  "runner_invariant st \<Longrightarrow> runner_invariant (st\<lparr>awaiting_close := awaiting_close st - X\<rparr>)"
  by (rule invariant_fields [of _ st]) auto

lemma invariant_diagnostics:
  "runner_invariant st \<Longrightarrow> runner_invariant (st\<lparr>diagnosticCollection := x\<rparr>)"
  by (rule invariant_fields [of _ st]) simp_all

lemma invariant_on_close:
  assumes inv: "runner_invariant st"
    and doc: "run_document st runner = Some uri"
    and nd: "runner \<in> disposed st \<longrightarrow> runner \<in> cancelled st"
    and na: "runner \<notin> awaiting_close st"
  shows "runner_invariant
           (snd (on_close fs parse snifferShowSources standard runner uri stdout stderr st))"
proof (cases "runner \<in> cancelled st \<or> stdout = []")
  case True
  then show ?thesis
    using inv invariant_shown [OF inv] by (simp add: on_close_def)
next
  case False
  then have nc: "runner \<notin> cancelled st" by simp
  with nd have nd': "runner \<notin> disposed st" by blast
  have a: "runner_invariant (publish (st\<lparr>shown := x\<rparr>) runner uri ds)" for x ds
    by (rule invariant_publish) (use invariant_shown [OF inv] doc nc nd' na in simp_all)
  have b: "runner_invariant (publish st runner uri ds)" for ds
    using inv doc nd' nc na by (rule invariant_publish)
  obtain ds thrown_value where t: "try_block parse snifferShowSources stdout = (ds, thrown_value)"
    by (cases "try_block parse snifferShowSources stdout")
  show ?thesis
  proof (cases thrown_value)
    case None
    with False b t show ?thesis by (simp add: on_close_def)
  next
    case (Some e)
    with False a t show ?thesis by (simp add: on_close_def Let_def)
  qed
qed

lemma invariant_step:
  assumes inv: "runner_invariant st"
  shows "runner_invariant (step fs parse st ev)"
proof (cases ev)
  case (Validate w c d)
  then show ?thesis
    using inv by (simp add: invariant_validate)
next
  case (ProcessClose runner showSources standard stdout stderr)
  show ?thesis
  proof (cases "run_document st runner")
    case None
    with ProcessClose inv show ?thesis by simp
  next
    case (Some uri)
    show ?thesis
    proof (cases "runner \<in> awaiting_close st")
      case False
      with ProcessClose Some inv show ?thesis by simp
    next
      case True
      let ?st0 = "st\<lparr>awaiting_close := awaiting_close st - {runner}\<rparr>"
      have inv0: "runner_invariant ?st0"
        using inv by (rule invariant_awaiting)
      have "runner \<in> disposed st \<longrightarrow> runner \<in> cancelled st"
        using inv_await [OF inv True] by blast
      then have nd: "runner \<in> disposed ?st0 \<longrightarrow> runner \<in> cancelled ?st0"
        by simp
      have doc: "run_document ?st0 runner = Some uri"
        using Some by simp
      have na: "runner \<notin> awaiting_close ?st0"
        by simp
      have "runner_invariant
          (snd (on_close fs parse showSources standard runner uri stdout stderr ?st0))"
        using inv0 doc nd na by (rule invariant_on_close)
      with ProcessClose Some True show ?thesis by simp
    qed
  qed
next
  case (DocumentClosed uri)
  then show ?thesis
    using inv by (simp add: invariant_diagnostics)
next
  case ClearAll
  then show ?thesis
    using inv by (simp add: invariant_diagnostics)
qed

lemma invariant_run_events:
  "runner_invariant st \<Longrightarrow> runner_invariant (run_events fs parse evs st)"
  unfolding run_events_def
  by (induction evs arbitrary: st) (simp_all add: invariant_step)

lemma validate_replaces:
  assumes inv: "runner_invariant st"
    and php: "doc_languageId document = ''php''" and en: "snifferEnable resourceConf"
    and old: "runnerCancellations st (doc_uri document) = Some oldRunner"
  shows "oldRunner \<in> cancelled (validate st True resourceConf document)
       \<and> oldRunner \<in> disposed (validate st True resourceConf document)
       \<and> runnerCancellations (validate st True resourceConf document) (doc_uri document)
           = Some (sources st)
       \<and> sources st \<noteq> oldRunner
       \<and> live (validate st True resourceConf document) (sources st)"
proof -
  have lt: "oldRunner < sources st"
    using inv_bound [OF inv inv_entry [OF inv old]] .
  have "sources st \<notin> cancelled st" and "sources st \<notin> disposed st"
    using inv_fresh [OF inv, of "sources st"] by auto
  with lt php en old show ?thesis
    by (simp add: validate_def cancel_old_def live_def Let_def)
qed

text \<open>
  C2. In every state reached from the initial one by triggers of \<^verbatim>\<open>validate\<close>,
  \<^verbatim>\<open>close\<close> events, closed documents and clearings, a document has at most one live
  cancellation token source among the runs started for it. When \<^verbatim>\<open>validate\<close> passes
  its guards for a document that has an entry in the runner map, the old source is
  cancelled and disposed, and the entry of the document becomes a new source, different
  from the old one and live.
\<close>

theorem one_live_runner_per_document:
  fixes st :: "'u sniffer_state"
  assumes "st = run_events fs parse evs initial_state"
  shows "(\<forall>u r r'. run_document st r = Some u \<and> live st r \<and>
                    run_document st r' = Some u \<and> live st r' \<longrightarrow> r = r')
       \<and> (\<forall>resourceConf document oldRunner.
             doc_languageId document = ''php'' \<and> snifferEnable resourceConf \<and>
             runnerCancellations st (doc_uri document) = Some oldRunner \<longrightarrow>
             oldRunner \<in> cancelled (validate st True resourceConf document)
             \<and> oldRunner \<in> disposed (validate st True resourceConf document)
             \<and> runnerCancellations (validate st True resourceConf document) (doc_uri document)
                 = Some (sources st)
             \<and> sources st \<noteq> oldRunner
             \<and> live (validate st True resourceConf document) (sources st))"
proof -
  have inv: "runner_invariant st"
    unfolding assms by (rule invariant_run_events) (rule invariant_initial)
  have one: "r = r'"
    if "run_document st r = Some u" "live st r" "run_document st r' = Some u" "live st r'"
    for u r r'
  proof -
    from that have "runnerCancellations st u = Some r" and "runnerCancellations st u = Some r'"
      using inv_live [OF inv] by blast+
    then show ?thesis by simp
  qed
  show ?thesis
  proof (intro conjI allI impI)
    fix u r r'
    assume "run_document st r = Some u \<and> live st r \<and> run_document st r' = Some u \<and> live st r'"
    then show "r = r'"
      using one by blast
  next
    fix resourceConf :: resource_conf and document :: "'u text_document" and oldRunner
    assume a: "doc_languageId document = ''php'' \<and> snifferEnable resourceConf \<and>
            runnerCancellations st (doc_uri document) = Some oldRunner"
    then have php: "doc_languageId document = ''php''" and en: "snifferEnable resourceConf"
      and old: "runnerCancellations st (doc_uri document) = Some oldRunner"
      by simp_all
    note r = validate_replaces [OF inv php en old]
    from r show "oldRunner \<in> cancelled (validate st True resourceConf document)" by simp
    from r show "oldRunner \<in> disposed (validate st True resourceConf document)" by simp
    from r show "runnerCancellations (validate st True resourceConf document) (doc_uri document)
           = Some (sources st)" by simp
    from r show "sources st \<noteq> oldRunner" by simp
    from r show "live (validate st True resourceConf document) (sources st)" by simp
  qed
qed

text \<open>
  The two sample states, evaluated.
\<close>

lemma superseded_state_eq:
  "superseded_state =
     \<lparr>runnerCancellations = Map.empty, cancelled = {0}, disposed = {0, 1}, sources = 2,
      run_document = [0 \<mapsto> ''file:///a.php'', 1 \<mapsto> ''file:///a.php''],
      awaiting_close = {0},
      diagnosticCollection = [''file:///a.php'' \<mapsto> [diagnostic_of False sample_message]],
      shown = []\<rparr>"
  apply (simp add: superseded_state_def run_events_def validate_def cancel_old_def initial_state_def
      sample_document_def Let_def on_close_def sample_parse_def publish_def try_block_def
      typed_files_def sample_stdout_def)
  apply (auto simp: fun_eq_iff)
  done

lemma republished_state_eq:
  "republished_state =
     \<lparr>runnerCancellations = [''file:///a.php'' \<mapsto> 1], cancelled = {}, disposed = {0}, sources = 2,
      run_document = [0 \<mapsto> ''file:///a.php'', 1 \<mapsto> ''file:///a.php''],
      awaiting_close = {1},
      diagnosticCollection = [''file:///a.php'' \<mapsto> [diagnostic_of False sample_message]],
      shown = []\<rparr>"
  apply (simp add: republished_state_def run_events_def validate_def cancel_old_def initial_state_def
      sample_document_def Let_def on_close_def sample_parse_def publish_def try_block_def
      typed_files_def sample_stdout_def)
  done

theorem one_live_runner_per_document_witness:
  "republished_state =
     run_events no_files sample_parse
       [Validate True \<lparr>snifferEnable = True\<rparr> sample_document,
        ProcessClose 0 False [] sample_stdout [],
        Validate True \<lparr>snifferEnable = True\<rparr> sample_document]
       initial_state
   \<and> doc_languageId sample_document = ''php'' \<and> snifferEnable \<lparr>snifferEnable = True\<rparr>
   \<and> runnerCancellations republished_state (doc_uri sample_document) = Some 1
   \<and> run_document republished_state 1 = Some (doc_uri sample_document)
   \<and> live republished_state 1
   \<and> 1 \<in> cancelled (validate republished_state True \<lparr>snifferEnable = True\<rparr> sample_document)
   \<and> 1 \<in> disposed (validate republished_state True \<lparr>snifferEnable = True\<rparr> sample_document)
   \<and> runnerCancellations
        (validate republished_state True \<lparr>snifferEnable = True\<rparr> sample_document)
        (doc_uri sample_document) = Some 2
   \<and> live (validate republished_state True \<lparr>snifferEnable = True\<rparr> sample_document) 2"
proof -
  have st: "republished_state =
     run_events no_files sample_parse
       [Validate True \<lparr>snifferEnable = True\<rparr> sample_document,
        ProcessClose 0 False [] sample_stdout [],
        Validate True \<lparr>snifferEnable = True\<rparr> sample_document]
       initial_state"
    by (simp add: republished_state_def)
  have pre: "doc_languageId sample_document = ''php''" "snifferEnable \<lparr>snifferEnable = True\<rparr>"
    "runnerCancellations republished_state (doc_uri sample_document) = Some 1"
    "run_document republished_state 1 = Some (doc_uri sample_document)"
    "live republished_state 1" "sources republished_state = 2"
    by (simp_all add: republished_state_eq sample_document_def live_def)
  note inst = one_live_runner_per_document [OF st]
  from inst have "\<forall>resourceConf document oldRunner.
             doc_languageId document = ''php'' \<and> snifferEnable resourceConf \<and>
             runnerCancellations republished_state (doc_uri document) = Some oldRunner \<longrightarrow>
             oldRunner \<in> cancelled (validate republished_state True resourceConf document)
             \<and> oldRunner \<in> disposed (validate republished_state True resourceConf document)
             \<and> runnerCancellations (validate republished_state True resourceConf document)
                  (doc_uri document) = Some (sources republished_state)
             \<and> sources republished_state \<noteq> oldRunner
             \<and> live (validate republished_state True resourceConf document)
                  (sources republished_state)"
    by (rule conjunct2)
  then have "1 \<in> cancelled (validate republished_state True \<lparr>snifferEnable = True\<rparr> sample_document)
     \<and> 1 \<in> disposed (validate republished_state True \<lparr>snifferEnable = True\<rparr> sample_document)
     \<and> runnerCancellations
          (validate republished_state True \<lparr>snifferEnable = True\<rparr> sample_document)
          (doc_uri sample_document) = Some (sources republished_state)
     \<and> sources republished_state \<noteq> 1
     \<and> live (validate republished_state True \<lparr>snifferEnable = True\<rparr> sample_document)
          (sources republished_state)"
    using pre(1-3) by blast
  with st pre show ?thesis by simp
qed

text \<open>
  On messages of the declared type neither loop throws, and one diagnostic is pushed for
  each message, in order.
\<close>

lemma forEach_message_typed:
  "forEach_message snifferShowSources (map Inr messages) diagnostics =
     (diagnostics @ map (diagnostic_of snifferShowSources) messages, None)"
  by (induction messages arbitrary: diagnostics) simp_all

lemma forEach_message_throws:
  "forEach_message snifferShowSources (map Inr messages @ Inl error # later) diagnostics =
     (diagnostics @ map (diagnostic_of snifferShowSources) messages, Some error)"
  by (induction messages arbitrary: diagnostics) simp_all

lemma for_files_typed:
  "for_files snifferShowSources (typed_files files @ later) diagnostics =
     for_files snifferShowSources later
       (diagnostics @ map (diagnostic_of snifferShowSources) (concat (map snd files)))"
proof (induction files arbitrary: diagnostics)
  case Nil
  show ?case by (simp add: typed_files_def)
next
  case (Cons entry files)
  obtain name messages where entry: "entry = (name, messages)"
    by (cases entry)
  have "typed_files (entry # files) = (name, Inr (map Inr messages)) # typed_files files"
    by (simp add: typed_files_def entry)
  then show ?case
    using Cons.IH by (simp add: forEach_message_typed entry)
qed

lemma diagnostic_of_fields:
  "d_range (diagnostic_of snifferShowSources m) =
     \<lparr>start_line = m_line m - 1, start_character = m_column m - 1,
      end_line = m_line m - 1, end_character = m_column m - 1\<rparr>"
  "d_severity (diagnostic_of snifferShowSources m) = (if m_type m = ERROR then Error else Warning)"
  "d_source (diagnostic_of snifferShowSources m) = ''phpcs''"
  by (simp_all add: diagnostic_of_def Let_def)

text \<open>
  C3. When the token of a run is cancelled at the time its \<^verbatim>\<open>close\<close> event is
  handled, the handler resolves the promise and returns before the collection is set: the
  published diagnostics and the runner map are as before. The only effect is the
  disabled-standard message, shown when the detector finds that condition in the output
  of the run.
\<close>

theorem cancelled_run_publishes_nothing:
  assumes "runner \<in> cancelled st"
  shows "fst (on_close fs parse snifferShowSources standard runner uri stdout stderr st) = Resolved ()
       \<and> diagnosticCollection
            (snd (on_close fs parse snifferShowSources standard runner uri stdout stderr st))
           = diagnosticCollection st
       \<and> runnerCancellations
            (snd (on_close fs parse snifferShowSources standard runner uri stdout stderr st))
           = runnerCancellations st
       \<and> shown (snd (on_close fs parse snifferShowSources standard runner uri stdout stderr st))
           = shown st @
             (if isStandardDisabled fs standard Phpcs stdout stderr
              then [getStandardDisabledErrorMsg standard Phpcs stdout stderr] else [])"
  using assms by (simp add: on_close_def)

theorem cancelled_run_publishes_nothing_witness:
  "0 \<in> cancelled superseded_state
   \<and> diagnosticCollection superseded_state ''file:///a.php''
       = Some [diagnostic_of False sample_message]
   \<and> diagnosticCollection
        (snd (on_close no_files sample_parse True [] 0 ''file:///a.php'' sample_stdout []
                superseded_state)) ''file:///a.php''
       = Some [diagnostic_of False sample_message]"
proof -
  have c: "0 \<in> cancelled superseded_state"
    by (simp add: superseded_state_eq)
  show ?thesis
    using cancelled_run_publishes_nothing
            [OF c, of no_files sample_parse True "[]" "''file:///a.php''" sample_stdout "[]"] c
    by (simp add: superseded_state_eq)
qed

text \<open>
  C8. When a run that is not cancelled closes with output that parses to a report of the
  declared type, the diagnostics published for the document correspond one to one, in
  order, to the messages of the report: each has the range from (line - 1, column - 1)
  to the same position, and the severity \<open>Error\<close> if the type of the message is
  \<open>ERROR\<close>, \<open>Warning\<close> otherwise.
\<close>

theorem published_findings_zero_based:
  assumes "runner \<notin> cancelled st" and "stdout \<noteq> []"
    and "parse stdout = Inr (typed_files files)"
  shows "\<exists>diagnostics.
           diagnosticCollection
             (snd (on_close fs parse snifferShowSources standard runner uri stdout stderr st)) uri
             = Some diagnostics
           \<and> list_all2
               (\<lambda>m d. d_range d = \<lparr>start_line = m_line m - 1, start_character = m_column m - 1,
                                   end_line = m_line m - 1, end_character = m_column m - 1\<rparr>
                      \<and> d_severity d = (if m_type m = ERROR then Error else Warning))
               (concat (map snd files)) diagnostics"
proof -
  have "try_block parse snifferShowSources stdout =
          (map (diagnostic_of snifferShowSources) (concat (map snd files)), None)"
    using assms(3) for_files_typed [of snifferShowSources files "[]" "[]"]
    by (simp add: try_block_def)
  then have "diagnosticCollection
          (snd (on_close fs parse snifferShowSources standard runner uri stdout stderr st)) uri
        = Some (map (diagnostic_of snifferShowSources) (concat (map snd files)))"
    using assms(1,2) by (simp add: on_close_def publish_def)
  moreover have "list_all2
      (\<lambda>m d. d_range d = \<lparr>start_line = m_line m - 1, start_character = m_column m - 1,
                          end_line = m_line m - 1, end_character = m_column m - 1\<rparr>
             \<and> d_severity d = (if m_type m = ERROR then Error else Warning))
      ms (map (diagnostic_of snifferShowSources) ms)" for ms
    by (simp add: list_all2_map2 list_all2_same diagnostic_of_fields)
  ultimately show ?thesis by blast
qed

theorem published_findings_zero_based_witness:
  "1 \<notin> cancelled republished_state \<and> sample_stdout \<noteq> []
   \<and> sample_parse sample_stdout = Inr (typed_files [(''a.php'', [sample_message])])
   \<and> (\<exists>d. diagnosticCollection
              (snd (on_close no_files sample_parse False [] 1 ''file:///a.php'' sample_stdout []
                      republished_state)) ''file:///a.php'' = Some [d]
          \<and> d_range d = \<lparr>start_line = 1, start_character = 0, end_line = 1, end_character = 0\<rparr>
          \<and> d_severity d = Error)"
proof -
  have a: "1 \<notin> cancelled republished_state"
    by (simp add: republished_state_eq)
  have b: "sample_stdout \<noteq> []"
    by (simp add: sample_stdout_def)
  have c: "sample_parse sample_stdout = Inr (typed_files [(''a.php'', [sample_message])])"
    by (simp add: sample_parse_def)
  from published_findings_zero_based
         [where parse = sample_parse and stdout = sample_stdout and fs = no_files
            and snifferShowSources = False and standard = "[]" and uri = "''file:///a.php''"
            and stderr = "[]", OF a b c]
  obtain ds where ds: "diagnosticCollection
              (snd (on_close no_files sample_parse False [] 1 ''file:///a.php'' sample_stdout []
                      republished_state)) ''file:///a.php'' = Some ds"
    and all: "list_all2
               (\<lambda>m d. d_range d = \<lparr>start_line = m_line m - 1, start_character = m_column m - 1,
                                   end_line = m_line m - 1, end_character = m_column m - 1\<rparr>
                      \<and> d_severity d = (if m_type m = ERROR then Error else Warning))
               [sample_message] ds"
    by auto
  from all obtain d where "ds = [d]"
    and "d_range d = \<lparr>start_line = 1, start_character = 0, end_line = 1, end_character = 0\<rparr>"
    and "d_severity d = Error"
    by (auto simp: list_all2_Cons1 sample_message_def)
  with ds a b c show ?thesis by blast
qed

text \<open>
  What the handler does when the \<^verbatim>\<open>try\<close> block throws, whatever it has pushed
  before.
\<close>

lemma on_close_throws:
  assumes "runner \<notin> cancelled st" and "stdout \<noteq> []"
    and "try_block parse snifferShowSources stdout = (diagnostics, Some error)"
  shows "fst (on_close fs parse snifferShowSources standard runner uri stdout stderr st)
           = Rejected (catch_message fs standard stdout stderr error)"
    and "shown (snd (on_close fs parse snifferShowSources standard runner uri stdout stderr st))
           = shown st @ [catch_message fs standard stdout stderr error]"
    and "diagnosticCollection
            (snd (on_close fs parse snifferShowSources standard runner uri stdout stderr st))
           = (diagnosticCollection st)(uri \<mapsto> diagnostics)"
  using assms by (simp_all add: on_close_def publish_def Let_def)

lemma catch_message_text:
  "stdout \<noteq> [] \<Longrightarrow>
   catch_message fs standard stdout stderr error
     = (if isStandardDisabled fs standard Phpcs stdout stderr
        then getStandardDisabledErrorMsg standard Phpcs stdout stderr
        else stdout @ [CHR 0x0A] @ (if stderr = [] then [] else stderr @ [CHR 0x0A]) @
             (if is_Error error then to_string error else ''Unexpected error''))"
  by (simp add: catch_message_def Let_def)

text \<open>
  C4, as the code has it. When a run that is not cancelled closes with non-empty output
  on which the \<^verbatim>\<open>try\<close> block throws, the promise is rejected with a message that is
  also shown to the user: the output, the standard error if it is not empty, each
  followed by a newline, then the text of the error; or the disabled-standard message
  when the detector finds that condition. The statement after the \<^verbatim>\<open>catch\<close> block
  still runs, so the diagnostics of the document are replaced by those pushed before
  the throw: none when \<^verbatim>\<open>JSON.parse\<close> throws; those of the files before an entry
  whose list of messages cannot be walked; those of the files and of the messages before
  an element on which the callback throws.
\<close>

theorem malformed_report_rejected:
  assumes "runner \<notin> cancelled st" and "stdout \<noteq> []"
    and "parse stdout = Inl error \<and> diagnostics = []
         \<or> parse stdout = Inr (typed_files files @ (name, Inl error) # later)
            \<and> diagnostics = map (diagnostic_of snifferShowSources) (concat (map snd files))
         \<or> parse stdout =
              Inr (typed_files files @ (name, Inr (map Inr messages @ Inl error # rest)) # later)
            \<and> diagnostics =
                map (diagnostic_of snifferShowSources) (concat (map snd files) @ messages)"
  shows "fst (on_close fs parse snifferShowSources standard runner uri stdout stderr st)
           = Rejected (catch_message fs standard stdout stderr error)
       \<and> shown (snd (on_close fs parse snifferShowSources standard runner uri stdout stderr st))
           = shown st @ [catch_message fs standard stdout stderr error]
       \<and> diagnosticCollection
            (snd (on_close fs parse snifferShowSources standard runner uri stdout stderr st))
           = (diagnosticCollection st)(uri \<mapsto> diagnostics)
       \<and> catch_message fs standard stdout stderr error
           = (if isStandardDisabled fs standard Phpcs stdout stderr
              then getStandardDisabledErrorMsg standard Phpcs stdout stderr
              else stdout @ [CHR 0x0A] @ (if stderr = [] then [] else stderr @ [CHR 0x0A]) @
                   (if is_Error error then to_string error else ''Unexpected error''))"
proof -
  have "try_block parse snifferShowSources stdout = (diagnostics, Some error)"
    using assms(3)
  proof (elim disjE conjE)
    assume "parse stdout = Inl error" and "diagnostics = []"
    then show ?thesis by (simp add: try_block_def)
  next
    assume "parse stdout = Inr (typed_files files @ (name, Inl error) # later)"
      and "diagnostics = map (diagnostic_of snifferShowSources) (concat (map snd files))"
    then show ?thesis by (simp add: try_block_def for_files_typed)
  next
    assume "parse stdout =
              Inr (typed_files files @ (name, Inr (map Inr messages @ Inl error # rest)) # later)"
      and "diagnostics =
             map (diagnostic_of snifferShowSources) (concat (map snd files) @ messages)"
    then show ?thesis
      by (simp add: try_block_def for_files_typed forEach_message_throws)
  qed
  then show ?thesis
    using on_close_throws [OF assms(1,2)] catch_message_text [OF assms(2)] by simp
qed

theorem malformed_report_rejected_witness:
  "1 \<notin> cancelled republished_state \<and> partial_stdout \<noteq> []
   \<and> sample_parse partial_stdout
       = Inr (typed_files [(''a.php'', [sample_message])] @ (''b.php'', Inl type_error) # [])
   \<and> fst (on_close no_files sample_parse False [] 1 ''file:///a.php'' partial_stdout []
            republished_state)
       = Rejected (partial_stdout @ [CHR 0x0A] @ to_string type_error)
   \<and> diagnosticCollection
        (snd (on_close no_files sample_parse False [] 1 ''file:///a.php'' partial_stdout []
                republished_state)) ''file:///a.php''
       = Some [diagnostic_of False sample_message]"
proof -
  have a: "1 \<notin> cancelled republished_state"
    by (simp add: republished_state_eq)
  have b: "partial_stdout \<noteq> []"
    by (simp add: partial_stdout_def)
  have ne: "partial_stdout \<noteq> sample_stdout"
    by (simp add: partial_stdout_def sample_stdout_def dq_def)
  have c: "sample_parse partial_stdout
       = Inr (typed_files [(''a.php'', [sample_message])] @ (''b.php'', Inl type_error) # [])"
    using ne by (simp add: sample_parse_def typed_files_def)
  have d: "\<not> isStandardDisabled no_files [] Phpcs partial_stdout []"
    by (simp add: isStandardDisabled_def isStandardDisabled_logged_def)
  have e: "is_Error type_error"
    by (simp add: type_error_def)
  have h: "sample_parse partial_stdout = Inl type_error \<and> [diagnostic_of False sample_message] = []
         \<or> sample_parse partial_stdout
              = Inr (typed_files [(''a.php'', [sample_message])] @ (''b.php'', Inl type_error) # [])
            \<and> [diagnostic_of False sample_message]
                = map (diagnostic_of False) (concat (map snd [(''a.php'', [sample_message])]))
         \<or> sample_parse partial_stdout =
              Inr (typed_files [(''a.php'', [sample_message])] @
                   (''b.php'', Inr (map Inr [] @ Inl type_error # [])) # [])
            \<and> [diagnostic_of False sample_message] =
                map (diagnostic_of False) (concat (map snd [(''a.php'', [sample_message])]) @ [])"
    using c by simp
  show ?thesis
    using malformed_report_rejected
            [where parse = sample_parse and stdout = partial_stdout and fs = no_files
               and snifferShowSources = False and standard = "[]" and uri = "''file:///a.php''"
               and stderr = "[]" and error = type_error
               and diagnostics = "[diagnostic_of False sample_message]"
               and files = "[(''a.php'', [sample_message])]" and name = "''b.php''"
               and later = "[]" and messages = "[]" and rest = "[]", OF a b h]
          a b c d e
    by simp
qed

text \<open>
  The diagnostics do not stay as they were: in the sample state the document has one
  published diagnostic, and after a run whose output does not parse it has none.
\<close>

theorem malformed_report_counterexample:
  "1 \<notin> cancelled republished_state
   \<and> sample_parse ''PHP Fatal error'' = Inl syntax_error
   \<and> diagnosticCollection republished_state ''file:///a.php''
       = Some [diagnostic_of False sample_message]
   \<and> diagnosticCollection
        (snd (on_close no_files sample_parse False [] 1 ''file:///a.php'' ''PHP Fatal error'' []
                republished_state)) ''file:///a.php''
       = Some []"
proof -
  have "sample_parse ''PHP Fatal error'' = Inl syntax_error"
    by (simp add: sample_parse_def sample_stdout_def partial_stdout_def)
  then show ?thesis
    by (simp add: republished_state_eq on_close_def try_block_def publish_def Let_def)
qed

section \<open>Properties of the fixer\<close>

text \<open>
  Past its three guards, and with the output of the process at hand, \<^verbatim>\<open>format\<close> throws
  when it evaluates \<^verbatim>\<open>stderr\<close>: its promise is rejected with the
  \<^verbatim>\<open>ReferenceError\<close>, whatever the exit status, the output and the document are, and the
  \<^verbatim>\<open>switch\<close> is not reached.
\<close>

lemma format_throws:
  assumes "workspaceFolder" and "languageId = ''php''" and "fixerEnable conf"
    and "fixer_stdout fixer = Some output"
  shows "fst (format fs msgs snifferVersionString conf workspaceFolder languageId standard
                fileText fixer)
           = Inl \<lparr>is_Error = True, to_string = ''ReferenceError: stderr is not defined''\<rparr>"
  using assms by (simp add: format_def fixer_stderr_def Let_def case_prod_unfold)

text \<open>
  The \<^verbatim>\<open>switch\<close> has the case of the unchanged document: for status 0 and fixed text
  equal to the document it leaves no error, an empty result and the message
  \<^verbatim>\<open>No fixable errors were found.\<close>, without reading \<^verbatim>\<open>stderr\<close>.
\<close>

lemma format_switch_no_change:
  "format_switch fs (Num 0) errorMsg fileText fileText error0 standard stderr
     = Inr ([], [], ''No fixable errors were found.'')"
  by (simp add: format_switch_def)

text \<open>
  C7, where the code departs from it. The fixer exits with status 0 and prints the
  document unchanged: the reconciliation should resolve to the empty result with the
  message \<^verbatim>\<open>No fixable errors were found.\<close>, and the \<^verbatim>\<open>switch\<close> has that case, but
  \<^verbatim>\<open>format\<close> never gets there. Its promise is rejected with the \<^verbatim>\<open>ReferenceError\<close>
  thrown by \<^verbatim>\<open>stderr\<close>, and the only trace of the call is the entry of status 0 in the
  message table, which \<^verbatim>\<open>getErrorMsg\<close> has rewritten before.
\<close>

theorem format_stops_before_reconciliation:
  "format no_files errorMsgs (Some ''3.13.2'') \<lparr>fixerEnable = True, debug = True\<rparr>
     True ''php'' [] ''<?php echo 1;''
     \<lparr>fixer_status = Some 0, fixer_stdout = Some ''<?php echo 1;'', fixer_error = Null\<rparr>
   = (Inl \<lparr>is_Error = True, to_string = ''ReferenceError: stderr is not defined''\<rparr>,
      AList.update ''0'' ''No errors were found or all errors were fixed'' errorMsgs)"
  by (simp add: format_def fixer_stderr_def getMappedExitCode_def status3x_def getErrorMsg_def
        Let_def)

end
